theory Spec2Isabelle
  imports Complex_Main "HOL-Library.Sublist"
begin

section \<open>Numbers, null and truthiness\<close>

text \<open>
  The metadata record handed to the computation holds, for every numeric tag, either a
  JavaScript number or \<open>null\<close> (the extractor's \<open>parseNum\<close> turns a missing or
  unparseable tag into \<open>null\<close>, never into \<open>undefined\<close>). A field is therefore a
  \<open>real option\<close>, \<open>None\<close> being \<open>null\<close>.

  Numbers are modelled as mathematical reals: rounding, overflow, \<open>NaN\<close> and the sign of
  zero are not represented. The only division of the source whose divisor is not guarded
  against zero is the one in \<open>computeFov\<close>; its IEEE result is written out there.
  A product or quotient of doubles can underflow to zero or overflow to \<open>Infinity\<close>
  where the real result is positive and finite; a statement whose truth depends on that
  carries bounds on the magnitude of its inputs, under which every intermediate result
  stays inside the range of normal doubles.
\<close>

type_synonym num = "real option"

text \<open>\<open>if (v)\<close> and \<open>!v\<close>: \<open>null\<close> and \<open>0\<close> are falsy, every other number is truthy.\<close>

definition truthy :: "num \<Rightarrow> bool" where
  "truthy v = (case v of None \<Rightarrow> False | Some x \<Rightarrow> x \<noteq> 0)"

text \<open>The coercion applied by arithmetic and by \<open><=\<close>: \<open>null\<close> becomes \<open>0\<close>.\<close>

definition toNumber :: "num \<Rightarrow> real" where
  "toNumber v = (case v of None \<Rightarrow> 0 | Some x \<Rightarrow> x)"

section \<open>Data model\<close>

text \<open>The object returned by \<open>extractExif\<close>, in the order of its fields.\<close>

record meta =
  width :: num
  height :: num
  orientation :: int
  focalLength :: num
  focalLengthIn35mm :: num
  scaleFactor35efl :: num
  focalPlaneXRes :: num
  focalPlaneYRes :: num
  focalPlaneUnit :: num
  digitalZoomRatio :: num
  focusDistance :: num

text \<open>The object \<open>{ width, height }\<close> returned by \<open>adjustForOrientation\<close>.\<close>

record 'a dims =
  dims_width :: 'a
  dims_height :: 'a

text \<open>The object \<open>{ sensorWidth, sensorHeight }\<close> of \<open>computeActualSensorDimensions\<close>.\<close>

record sensor =
  sensorWidth :: num
  sensorHeight :: num

record fov =
  hfov :: real
  vfov :: real
  dfov :: real

text \<open>\<open>throw new Error(message)\<close>: the only failure of the computation.\<close>

datatype error = Error string

text \<open>The object returned by \<open>analyze\<close>.\<close>

record result =
  res_file :: string
  rawWidth :: num
  rawHeight :: num
  visualWidth :: num
  visualHeight :: num
  res_orientation :: int
  res_focalLength :: num
  res_focalLengthIn35mm :: real
  res_scaleFactor35efl :: num
  fPixelDiagonal :: real
  res_hfov :: real
  res_vfov :: real
  res_dfov :: real
  res_focusDistance :: num

section \<open>Constants\<close>

definition SENSOR_WIDTH_35MM :: real where
  "SENSOR_WIDTH_35MM = 36"

definition SENSOR_HEIGHT_35MM :: real where
  "SENSOR_HEIGHT_35MM = 24"

definition SENSOR_DIAG_35MM :: real where
  "SENSOR_DIAG_35MM = sqrt (SENSOR_WIDTH_35MM ^ 2 + SENSOR_HEIGHT_35MM ^ 2)"

text \<open>
  The table of unit multipliers, keyed by the unit code. Code 1 has no entry. A property
  lookup with \<open>null\<close> or with any number that is not a key yields \<open>undefined\<close>.
\<close>

definition FOCAL_PLANE_UNIT_MM :: "real \<rightharpoonup> real" where
  "FOCAL_PLANE_UNIT_MM = [2 \<mapsto> 25.4, 3 \<mapsto> 10, 4 \<mapsto> 1, 5 \<mapsto> 0.001]"

definition table_lookup :: "num \<Rightarrow> real option" where
  "table_lookup unitTag = (case unitTag of None \<Rightarrow> None | Some u \<Rightarrow> FOCAL_PLANE_UNIT_MM u)"

section \<open>Operations\<close>

definition focalPlaneUnitMul :: "num \<Rightarrow> real option" where
  "focalPlaneUnitMul unitTag =
     (if unitTag = Some 1 then None
      else (case table_lookup unitTag of
              Some m \<Rightarrow> Some m
            | None \<Rightarrow> FOCAL_PLANE_UNIT_MM 2))"

definition rad2deg :: "real \<Rightarrow> real" where
  "rad2deg r = (r * 180) / pi"

definition closeFocusCorrectionFactor :: "num \<Rightarrow> num \<Rightarrow> real" where
  "closeFocusCorrectionFactor focalLengthMm focusDistM =
     (if \<not> truthy focusDistM \<or> toNumber focusDistM \<le> 0 then 1
      else let d = 1000 * toNumber focusDistM - toNumber focalLengthMm
           in if d \<le> 0 then 1
              else 1 + toNumber focalLengthMm / d)"

definition adjustForOrientation :: "'a \<Rightarrow> 'a \<Rightarrow> int \<Rightarrow> 'a dims" where
  "adjustForOrientation w h orient =
     (let rotated = (orient \<ge> 5 \<and> orient \<le> 8)
      in if rotated then \<lparr>dims_width = h, dims_height = w\<rparr>
         else \<lparr>dims_width = w, dims_height = h\<rparr>)"

definition computeActualSensorDimensions :: "meta \<Rightarrow> sensor option" where
  "computeActualSensorDimensions m =
     (case focalPlaneUnitMul (focalPlaneUnit m) of
        None \<Rightarrow> None
      | Some unitMul \<Rightarrow>
          (let sw = (if truthy (focalPlaneXRes m) \<and> truthy (width m)
                     then Some ((toNumber (width m) / toNumber (focalPlaneXRes m)) * unitMul)
                     else None);
               sh = (if truthy (focalPlaneYRes m) \<and> truthy (height m)
                     then Some ((toNumber (height m) / toNumber (focalPlaneYRes m)) * unitMul)
                     else None)
           in if sw = None \<and> sh = None then None
              else Some \<lparr>sensorWidth = sw, sensorHeight = sh\<rparr>))"

definition f35mmFromFocalPlane :: "meta \<Rightarrow> real option" where
  "f35mmFromFocalPlane m =
     (if \<not> truthy (focalLength m) then None
      else (case computeActualSensorDimensions m of
              None \<Rightarrow> None
            | Some s \<Rightarrow>
                (let cropFactor0 = (if truthy (sensorWidth s)
                                    then Some (SENSOR_WIDTH_35MM / toNumber (sensorWidth s))
                                    else None);
                     cropFactor1 = (if truthy (sensorHeight s)
                                    then (let cropFactorY = SENSOR_HEIGHT_35MM / toNumber (sensorHeight s)
                                          in (case cropFactor0 of
                                                None \<Rightarrow> Some cropFactorY
                                              | Some c \<Rightarrow> Some ((c + cropFactorY) / 2)))
                                    else cropFactor0)
                 in (case cropFactor1 of
                       None \<Rightarrow> None
                     | Some c \<Rightarrow> Some (toNumber (focalLength m) * c)))))"

definition resolution_message :: string where
  "resolution_message =
     ''Cannot determine 35 mm-equivalent focal length. '' @
     ''The image must contain either FocalLengthIn35mmFormat, '' @
     ''FocalLength + ScaleFactor35efl, or FocalLength + FocalPlaneResolution tags. '' @
     ''FocalPlaneResolutionUnit must not be 1 (no-unit).''"

definition getF35mm :: "meta \<Rightarrow> error + real" where
  "getF35mm m =
     (if truthy (focalLengthIn35mm m) then Inr (toNumber (focalLengthIn35mm m))
      else if truthy (focalLength m) \<and> truthy (scaleFactor35efl m)
           then Inr (toNumber (focalLength m) * toNumber (scaleFactor35efl m))
      else (case f35mmFromFocalPlane m of
              Some fromPlane \<Rightarrow> Inr fromPlane
            | None \<Rightarrow> Inl (Error resolution_message)))"

text \<open>
  \<open>Math.atan(n / d)\<close> for a positive numerator \<open>n\<close>: a zero divisor gives
  \<open>Infinity\<close>, whose arc tangent is \<open>pi / 2\<close>.
\<close>

definition atan_quot :: "real \<Rightarrow> real \<Rightarrow> real" where
  "atan_quot n d = (if d = 0 then pi / 2 else arctan (n / d))"

definition computeFov :: "real \<Rightarrow> fov" where
  "computeFov f35mm =
     \<lparr>hfov = rad2deg (2 * atan_quot SENSOR_WIDTH_35MM (2 * f35mm)),
      vfov = rad2deg (2 * atan_quot SENSOR_HEIGHT_35MM (2 * f35mm)),
      dfov = rad2deg (2 * atan_quot SENSOR_DIAG_35MM (2 * f35mm))\<rparr>"

definition computeDiagonalPixelFocalLength :: "real \<Rightarrow> real \<Rightarrow> real \<Rightarrow> real" where
  "computeDiagonalPixelFocalLength f35mm w h =
     (let diagPixels = sqrt (w ^ 2 + h ^ 2)
      in (f35mm / SENSOR_DIAG_35MM) * diagPixels)"

text \<open>
  \<open>analyze\<close>, from the metadata record on: reading the file (\<open>extractExif\<close>) goes
  through an external tool and is not modelled, so the record it returns is an argument.
  The pixel dimensions reach \<open>computeDiagonalPixelFocalLength\<close> as stored; its
  arithmetic coerces them.
\<close>

definition analyze :: "string \<Rightarrow> meta \<Rightarrow> bool \<Rightarrow> error + result" where
  "analyze filePath m applyCloseFocusCorrection =
     (case getF35mm m of
        Inl e \<Rightarrow> Inl e
      | Inr f35mm \<Rightarrow>
          (let rawW = width m;
               rawH = height m;
               vis = adjustForOrientation rawW rawH (orientation m);
               isRotated = (orientation m \<ge> 5 \<and> orientation m \<le> 8);
               corr = (if applyCloseFocusCorrection
                       then closeFocusCorrectionFactor (focalLength m) (focusDistance m)
                       else 1);
               fv = computeFov (f35mm * corr);
               h = (if isRotated then vfov fv else hfov fv);
               v = (if isRotated then hfov fv else vfov fv);
               fPixel = computeDiagonalPixelFocalLength f35mm (toNumber rawW) (toNumber rawH)
           in Inr \<lparr>res_file = filePath,
                   rawWidth = rawW,
                   rawHeight = rawH,
                   visualWidth = dims_width vis,
                   visualHeight = dims_height vis,
                   res_orientation = orientation m,
                   res_focalLength = focalLength m,
                   res_focalLengthIn35mm = f35mm,
                   res_scaleFactor35efl = scaleFactor35efl m,
                   fPixelDiagonal = fPixel,
                   res_hfov = h,
                   res_vfov = v,
                   res_dfov = dfov fv,
                   res_focusDistance = focusDistance m\<rparr>))"

section \<open>Vocabulary of the specification\<close>

text \<open>
  The specification speaks of a field being \<^emph>\<open>present\<close> or \<^emph>\<open>available\<close>. Read
  literally, a field is present when it is not \<open>null\<close>. The code tests truthiness
  instead, which also rejects the number zero.
\<close>

definition present :: "num \<Rightarrow> bool" where
  "present v = (v \<noteq> None)"

definition nonzero :: "num \<Rightarrow> bool" where
  "nonzero v = (present v \<and> v \<noteq> Some 0)"

text \<open>
  A tag of moderate magnitude: missing, zero, or between \<open>10^-100\<close> and \<open>10^100\<close>
  (in particular not negative).
\<close>

definition limit :: real where
  "limit = 10 ^ 100"

definition moderate :: "num \<Rightarrow> bool" where
  "moderate v =
     (case v of None \<Rightarrow> True | Some x \<Rightarrow> x = 0 \<or> (1 / limit \<le> x \<and> x \<le> limit))"

text \<open>
  The focal-plane derivation as the specification words it, for a given reading
  \<open>available\<close> of "present": the unit multiplier by cases on the code, each sensor
  dimension from the pixel count and the resolution, the crop factor from the axes that
  resolved.
\<close>

definition spec_unit_multiplier :: "num \<Rightarrow> real option" where
  "spec_unit_multiplier code =
     (if code = Some 1 then None
      else if code = Some 2 then Some 25.4
      else if code = Some 3 then Some 10
      else if code = Some 4 then Some 1
      else if code = Some 5 then Some 0.001
      else Some 25.4)"

definition spec_sensor_dimension :: "(num \<Rightarrow> bool) \<Rightarrow> num \<Rightarrow> num \<Rightarrow> real \<Rightarrow> real option" where
  "spec_sensor_dimension available pixels res mul =
     (if available pixels \<and> available res
      then Some ((toNumber pixels / toNumber res) * mul)
      else None)"

definition spec_crop_factor :: "real option \<Rightarrow> real option \<Rightarrow> real option" where
  "spec_crop_factor actualWidth actualHeight =
     (case (actualWidth, actualHeight) of
        (Some w, Some h) \<Rightarrow> Some ((36 / w + 24 / h) / 2)
      | (Some w, None) \<Rightarrow> Some (36 / w)
      | (None, Some h) \<Rightarrow> Some (24 / h)
      | (None, None) \<Rightarrow> None)"

definition spec_focal_plane :: "(num \<Rightarrow> bool) \<Rightarrow> meta \<Rightarrow> real option" where
  "spec_focal_plane available m =
     (if \<not> available (focalLength m) then None
      else (case spec_unit_multiplier (focalPlaneUnit m) of
              None \<Rightarrow> None
            | Some mul \<Rightarrow>
                (case spec_crop_factor
                        (spec_sensor_dimension available (width m) (focalPlaneXRes m) mul)
                        (spec_sensor_dimension available (height m) (focalPlaneYRes m) mul) of
                   None \<Rightarrow> None
                 | Some c \<Rightarrow> Some (toNumber (focalLength m) * c))))"

section \<open>Sample records\<close>

text \<open>
  The record of the end-to-end example: 6000 by 4000 pixels, orientation 1, focal length
  90 mm, 35 mm-equivalent focal length 90 mm, every other tag missing. The records used
  below are updates of it.
\<close>

definition sample :: meta where
  "sample = \<lparr>width = Some 6000, height = Some 4000, orientation = 1,
              focalLength = Some 90, focalLengthIn35mm = Some 90, scaleFactor35efl = None,
              focalPlaneXRes = None, focalPlaneYRes = None, focalPlaneUnit = None,
              digitalZoomRatio = None, focusDistance = None\<rparr>"

section \<open>Basic facts\<close>

lemma truthy_Some [simp]: "truthy (Some x) \<longleftrightarrow> x \<noteq> 0"
  by (simp add: truthy_def)

lemma truthy_None [simp]: "\<not> truthy None"
  by (simp add: truthy_def)

lemma toNumber_Some [simp]: "toNumber (Some x) = x"
  by (simp add: toNumber_def)

lemma toNumber_None [simp]: "toNumber None = 0"
  by (simp add: toNumber_def)

lemma truthy_toNumber: "truthy v \<longleftrightarrow> v \<noteq> None \<and> toNumber v \<noteq> 0"
  by (cases v) simp_all

lemma truthy_nonzero: "truthy v = nonzero v"
  by (cases v) (simp_all add: nonzero_def present_def)

lemma limit_ge_1: "1 \<le> limit"
  unfolding limit_def by (rule one_le_power) simp

lemma truthy_moderate:
  "truthy v \<Longrightarrow> moderate v \<Longrightarrow> 1 / limit \<le> toNumber v \<and> toNumber v \<le> limit"
  by (cases v) (simp_all add: moderate_def)

lemma focalPlaneUnitMul_cases:
  "focalPlaneUnitMul u =
     (if u = Some 1 then None
      else if u = Some 2 then Some 25.4
      else if u = Some 3 then Some 10
      else if u = Some 4 then Some 1
      else if u = Some 5 then Some 0.001
      else Some 25.4)"
  by (cases u) (auto simp: focalPlaneUnitMul_def table_lookup_def FOCAL_PLANE_UNIT_MM_def)

lemma focalPlaneUnitMul_pos:
  assumes "focalPlaneUnitMul u = Some mul"
  shows "0 < mul"
proof -
  from assms have "mul = 25.4 \<or> mul = 10 \<or> mul = 1 \<or> mul = 0.001"
    unfolding focalPlaneUnitMul_cases by (metis option.distinct(1) option.inject)
  then show ?thesis
    by (elim disjE) simp_all
qed

lemma focalPlaneUnitMul_None: "focalPlaneUnitMul u = None \<longleftrightarrow> u = Some 1"
  by (simp add: focalPlaneUnitMul_cases del: not_None_eq)

text \<open>
  The focal-plane derivation with its nullable local variables resolved: the sensor
  dimensions computed from truthy operands are never zero, so the second truthiness test
  (on \<open>sensor.sensorWidth\<close> and \<open>sensor.sensorHeight\<close>) repeats the first.
\<close>

lemma f35mmFromFocalPlane_unfold:
  "f35mmFromFocalPlane m =
     (if \<not> truthy (focalLength m) then None
      else (case focalPlaneUnitMul (focalPlaneUnit m) of
              None \<Rightarrow> None
            | Some mul \<Rightarrow>
                (if truthy (focalPlaneXRes m) \<and> truthy (width m)
                 then (if truthy (focalPlaneYRes m) \<and> truthy (height m)
                       then Some (toNumber (focalLength m) *
                                  ((36 / (toNumber (width m) / toNumber (focalPlaneXRes m) * mul) +
                                    24 / (toNumber (height m) / toNumber (focalPlaneYRes m) * mul)) / 2))
                       else Some (toNumber (focalLength m) *
                                  (36 / (toNumber (width m) / toNumber (focalPlaneXRes m) * mul))))
                 else (if truthy (focalPlaneYRes m) \<and> truthy (height m)
                       then Some (toNumber (focalLength m) *
                                  (24 / (toNumber (height m) / toNumber (focalPlaneYRes m) * mul)))
                       else None))))"
proof (cases "focalPlaneUnitMul (focalPlaneUnit m)")
  case None
  then show ?thesis
    by (simp add: f35mmFromFocalPlane_def computeActualSensorDimensions_def)
next
  case (Some mul)
  then have mul: "mul \<noteq> 0"
    using focalPlaneUnitMul_pos by fastforce
  have x: "truthy (focalPlaneXRes m) \<and> truthy (width m) \<Longrightarrow>
           toNumber (width m) / toNumber (focalPlaneXRes m) * mul \<noteq> 0"
    using mul by (simp add: truthy_toNumber)
  have y: "truthy (focalPlaneYRes m) \<and> truthy (height m) \<Longrightarrow>
           toNumber (height m) / toNumber (focalPlaneYRes m) * mul \<noteq> 0"
    using mul by (simp add: truthy_toNumber)
  show ?thesis
    using x y
    by (simp add: f35mmFromFocalPlane_def computeActualSensorDimensions_def Some Let_def
        SENSOR_WIDTH_35MM_def SENSOR_HEIGHT_35MM_def)
qed

lemma f35mmFromFocalPlane_None_iff:
  "f35mmFromFocalPlane m = None \<longleftrightarrow>
     \<not> truthy (focalLength m) \<or> focalPlaneUnit m = Some 1 \<or>
     (\<not> (truthy (focalPlaneXRes m) \<and> truthy (width m)) \<and>
      \<not> (truthy (focalPlaneYRes m) \<and> truthy (height m)))"
proof (cases "focalPlaneUnitMul (focalPlaneUnit m)")
  case None
  then have "focalPlaneUnit m = Some 1"
    by (simp add: focalPlaneUnitMul_None)
  with None show ?thesis
    by (simp add: f35mmFromFocalPlane_unfold)
next
  case (Some mul)
  then have "focalPlaneUnit m \<noteq> Some 1"
    using focalPlaneUnitMul_None [of "focalPlaneUnit m"] by simp
  with Some show ?thesis
    by (simp add: f35mmFromFocalPlane_unfold del: not_None_eq)
qed

text \<open>
  Magnitudes along the resolver, for operands between \<open>1 / L\<close> and \<open>L\<close>: a sensor
  dimension lies between \<open>1 / (1000 * L^2)\<close> and \<open>26 * L^2\<close>, a crop factor between
  \<open>12 / (13 * L^2)\<close> and \<open>36000 * L^2\<close>, and the result between
  \<open>12 / (13 * L^3)\<close> and \<open>36000 * L^3\<close>. For \<open>L = 10^100\<close> all of these are inside
  the range of normal doubles, from \<open>2^-1022\<close> to just under \<open>2^1024\<close>.
\<close>

lemma focalPlaneUnitMul_bounds:
  assumes "focalPlaneUnitMul u = Some mul"
  shows "1 / 1000 \<le> mul \<and> mul \<le> 26"
proof -
  from assms have "mul = 25.4 \<or> mul = 10 \<or> mul = 1 \<or> mul = 0.001"
    unfolding focalPlaneUnitMul_cases by (metis option.distinct(1) option.inject)
  then show ?thesis
    by (elim disjE) simp_all
qed

lemma sensor_dimension_bounds:
  fixes a b mul L :: real
  assumes L: "1 \<le> L"
    and a: "1 / L \<le> a \<and> a \<le> L" and b: "1 / L \<le> b \<and> b \<le> L"
    and mul: "1 / 1000 \<le> mul \<and> mul \<le> 26"
  shows "1 / (1000 * L\<^sup>2) \<le> a / b * mul \<and> a / b * mul \<le> 26 * L\<^sup>2"
proof -
  have L0: "0 < L"
    using L by simp
  then have iL: "0 < 1 / L"
    by simp
  from a have a1: "1 / L \<le> a" and a2: "a \<le> L"
    by simp_all
  from b have b1: "1 / L \<le> b" and b2: "b \<le> L"
    by simp_all
  from mul have m1: "1 / 1000 \<le> mul" and m2: "mul \<le> 26"
    by simp_all
  have a0: "0 < a"
    using iL a1 by (rule less_le_trans)
  have b0: "0 < b"
    using iL b1 by (rule less_le_trans)
  have q0: "0 \<le> a / b"
    using a0 b0 by simp
  have q1: "(1 / L) / L \<le> a / b"
    using less_imp_le [OF a0] a1 b0 b2 by (rule frac_le)
  have q2: "a / b \<le> L / (1 / L)"
    using less_imp_le [OF L0] a2 iL b1 by (rule frac_le)
  have "(1 / L) / L * (1 / 1000) \<le> a / b * mul"
    using q1 m1 q0 by (rule mult_mono) simp
  then have lower: "1 / (1000 * L\<^sup>2) \<le> a / b * mul"
    by (simp add: power2_eq_square)
  have "a / b * mul \<le> L / (1 / L) * 26"
    using q2 m2 by (rule mult_mono) (use L0 m1 in simp_all)
  then have upper: "a / b * mul \<le> 26 * L\<^sup>2"
    by (simp add: power2_eq_square)
  from lower upper show ?thesis ..
qed

lemma crop_factor_bounds:
  fixes s k L :: real
  assumes L: "1 \<le> L"
    and s: "1 / (1000 * L\<^sup>2) \<le> s \<and> s \<le> 26 * L\<^sup>2" and k: "24 \<le> k \<and> k \<le> 36"
  shows "12 / (13 * L\<^sup>2) \<le> k / s \<and> k / s \<le> 36000 * L\<^sup>2"
proof -
  have L2: "0 < L\<^sup>2"
    using L by simp
  then have i: "0 < 1 / (1000 * L\<^sup>2)"
    by simp
  from s have s1: "1 / (1000 * L\<^sup>2) \<le> s" and s2: "s \<le> 26 * L\<^sup>2"
    by simp_all
  from k have k1: "24 \<le> k" and k2: "k \<le> 36"
    by simp_all
  from i s1 have s0: "0 < s"
    by (rule less_le_trans)
  have k0: "0 \<le> k"
    using k1 by simp
  have "24 / (26 * L\<^sup>2) \<le> k / s"
    using k0 k1 s0 s2 by (rule frac_le)
  then have lower: "12 / (13 * L\<^sup>2) \<le> k / s"
    by simp
  have "k / s \<le> 36 / (1 / (1000 * L\<^sup>2))"
    by (rule frac_le) (use k2 i s1 in simp_all)
  then have upper: "k / s \<le> 36000 * L\<^sup>2"
    by simp
  from lower upper show ?thesis ..
qed

lemma scaled_bounds:
  fixes f c L :: real
  assumes L: "1 \<le> L"
    and f: "1 / L \<le> f \<and> f \<le> L" and c: "12 / (13 * L\<^sup>2) \<le> c \<and> c \<le> 36000 * L\<^sup>2"
  shows "12 / (13 * L ^ 3) \<le> f * c \<and> f * c \<le> 36000 * L ^ 3"
proof -
  have L0: "0 < L"
    using L by simp
  have f0: "0 \<le> f" and c0: "0 \<le> c"
    using f c L0 by (auto intro: order_trans [rotated])
  have "1 / L * (12 / (13 * L\<^sup>2)) \<le> f * c"
    by (intro mult_mono) (use f c f0 L0 in simp_all)
  then have lower: "12 / (13 * L ^ 3) \<le> f * c"
    by (simp add: power2_eq_square power3_eq_cube)
  have "f * c \<le> L * (36000 * L\<^sup>2)"
    by (intro mult_mono) (use f c f0 c0 L0 in simp_all)
  then have upper: "f * c \<le> 36000 * L ^ 3"
    by (simp add: power2_eq_square power3_eq_cube)
  from lower upper show ?thesis ..
qed

lemma average_bounds:
  fixes p q l u :: real
  assumes "l \<le> p \<and> p \<le> u" and "l \<le> q \<and> q \<le> u"
  shows "l \<le> (p + q) / 2 \<and> (p + q) / 2 \<le> u"
  using assms by auto

lemma widen_bounds:
  fixes v L :: real
  assumes L: "1 \<le> L" and v: "1 / L\<^sup>2 \<le> v \<and> v \<le> L\<^sup>2"
  shows "12 / (13 * L ^ 3) \<le> v \<and> v \<le> 36000 * L ^ 3"
proof -
  have L0: "0 < L"
    using L by simp
  have p: "L\<^sup>2 \<le> L ^ 3"
    using L by (intro power_increasing) simp_all
  have "12 / (13 * L ^ 3) \<le> 1 / L ^ 3"
    using L0 by (simp add: field_simps)
  also have "\<dots> \<le> 1 / L\<^sup>2"
    using p L0 by (intro divide_left_mono) simp_all
  finally have lower: "12 / (13 * L ^ 3) \<le> v"
    using v by simp
  from v have "v \<le> L\<^sup>2"
    by (rule conjunct2)
  also note p
  also have "L ^ 3 \<le> 36000 * L ^ 3"
    using L0 by simp
  finally have upper: "v \<le> 36000 * L ^ 3" .
  from lower upper show ?thesis ..
qed

lemma square_bounds:
  fixes v L :: real
  assumes L: "1 \<le> L" and v: "1 / L \<le> v \<and> v \<le> L"
  shows "1 / L\<^sup>2 \<le> v \<and> v \<le> L\<^sup>2"
proof -
  have L0: "0 < L"
    using L by simp
  have p: "L \<le> L\<^sup>2"
    using L by (simp add: power2_eq_square)
  then have "1 / L\<^sup>2 \<le> 1 / L"
    using L0 by (intro divide_left_mono) simp_all
  with p v show ?thesis
    by simp
qed

lemma product_bounds:
  fixes f s L :: real
  assumes L: "1 \<le> L" and f: "1 / L \<le> f \<and> f \<le> L" and s: "1 / L \<le> s \<and> s \<le> L"
  shows "1 / L\<^sup>2 \<le> f * s \<and> f * s \<le> L\<^sup>2"
proof -
  have L0: "0 < L"
    using L by simp
  have f0: "0 \<le> f" and s0: "0 \<le> s"
    using f s L0 by (auto intro: order_trans [rotated])
  have "1 / L * (1 / L) \<le> f * s"
    by (intro mult_mono) (use f s f0 L0 in simp_all)
  then have lower: "1 / L\<^sup>2 \<le> f * s"
    by (simp add: power2_eq_square)
  have "f * s \<le> L * L"
    by (intro mult_mono) (use f s f0 s0 L0 in simp_all)
  then have upper: "f * s \<le> L\<^sup>2"
    by (simp add: power2_eq_square)
  from lower upper show ?thesis ..
qed


lemma f35mmFromFocalPlane_bounds:
  assumes fl: "moderate (focalLength m)"
    and w: "moderate (width m)" and h: "moderate (height m)"
    and x: "moderate (focalPlaneXRes m)" and y: "moderate (focalPlaneYRes m)"
    and r: "f35mmFromFocalPlane m = Some v"
  shows "12 / (13 * limit ^ 3) \<le> v \<and> v \<le> 36000 * limit ^ 3"
proof -
  note L = limit_ge_1
  from r have t: "truthy (focalLength m)"
    by (auto simp: f35mmFromFocalPlane_unfold split: if_splits)
  then have f: "1 / limit \<le> toNumber (focalLength m) \<and> toNumber (focalLength m) \<le> limit"
    using fl by (rule truthy_moderate)
  from r t obtain mul where mul: "focalPlaneUnitMul (focalPlaneUnit m) = Some mul"
    by (auto simp: f35mmFromFocalPlane_unfold split: option.splits)
  then have mb: "1 / 1000 \<le> mul \<and> mul \<le> 26"
    by (rule focalPlaneUnitMul_bounds)
  have cx: "12 / (13 * limit\<^sup>2) \<le> 36 / (toNumber (width m) / toNumber (focalPlaneXRes m) * mul) \<and>
            36 / (toNumber (width m) / toNumber (focalPlaneXRes m) * mul) \<le> 36000 * limit\<^sup>2"
    if "truthy (focalPlaneXRes m) \<and> truthy (width m)"
    by (intro crop_factor_bounds sensor_dimension_bounds truthy_moderate w x mb L)
      (use that in simp_all)
  have cy: "12 / (13 * limit\<^sup>2) \<le> 24 / (toNumber (height m) / toNumber (focalPlaneYRes m) * mul) \<and>
            24 / (toNumber (height m) / toNumber (focalPlaneYRes m) * mul) \<le> 36000 * limit\<^sup>2"
    if "truthy (focalPlaneYRes m) \<and> truthy (height m)"
    by (intro crop_factor_bounds sensor_dimension_bounds truthy_moderate h y mb L)
      (use that in simp_all)
  show ?thesis
  proof (cases "truthy (focalPlaneXRes m) \<and> truthy (width m)")
    case True
    note X = this
    show ?thesis
    proof (cases "truthy (focalPlaneYRes m) \<and> truthy (height m)")
      case True
      have "12 / (13 * limit\<^sup>2) \<le>
              (36 / (toNumber (width m) / toNumber (focalPlaneXRes m) * mul) +
               24 / (toNumber (height m) / toNumber (focalPlaneYRes m) * mul)) / 2 \<and>
            (36 / (toNumber (width m) / toNumber (focalPlaneXRes m) * mul) +
             24 / (toNumber (height m) / toNumber (focalPlaneYRes m) * mul)) / 2 \<le> 36000 * limit\<^sup>2"
        using cx [OF X] cy [OF True] by (rule average_bounds)
      with L f have "12 / (13 * limit ^ 3) \<le> toNumber (focalLength m) *
                 ((36 / (toNumber (width m) / toNumber (focalPlaneXRes m) * mul) +
                   24 / (toNumber (height m) / toNumber (focalPlaneYRes m) * mul)) / 2) \<and>
            toNumber (focalLength m) *
                 ((36 / (toNumber (width m) / toNumber (focalPlaneXRes m) * mul) +
                   24 / (toNumber (height m) / toNumber (focalPlaneYRes m) * mul)) / 2) \<le> 36000 * limit ^ 3"
        by (rule scaled_bounds)
      with r t mul X True show ?thesis
        by (simp add: f35mmFromFocalPlane_unfold)
    next
      case False
      from L f cx [OF X] have "12 / (13 * limit ^ 3) \<le> toNumber (focalLength m) *
                 (36 / (toNumber (width m) / toNumber (focalPlaneXRes m) * mul)) \<and>
            toNumber (focalLength m) *
                 (36 / (toNumber (width m) / toNumber (focalPlaneXRes m) * mul)) \<le> 36000 * limit ^ 3"
        by (rule scaled_bounds)
      with r t mul X False show ?thesis
        by (simp add: f35mmFromFocalPlane_unfold)
    qed
  next
    case False
    note X = this
    show ?thesis
    proof (cases "truthy (focalPlaneYRes m) \<and> truthy (height m)")
      case True
      from L f cy [OF True] have "12 / (13 * limit ^ 3) \<le> toNumber (focalLength m) *
                 (24 / (toNumber (height m) / toNumber (focalPlaneYRes m) * mul)) \<and>
            toNumber (focalLength m) *
                 (24 / (toNumber (height m) / toNumber (focalPlaneYRes m) * mul)) \<le> 36000 * limit ^ 3"
        by (rule scaled_bounds)
      with r t mul X True show ?thesis
        by (simp add: f35mmFromFocalPlane_unfold)
    next
      case False
      with r t mul X show ?thesis
        by (simp add: f35mmFromFocalPlane_unfold)
    qed
  qed
qed

lemma limit_bounds_positive: "0 < 12 / (13 * limit ^ 3)"
  using limit_ge_1 by simp

lemma limit_in_double_range:
  "1 / 2 ^ 1022 \<le> 12 / (13 * limit ^ 3) \<and> 36000 * limit ^ 3 \<le> 2 ^ 1023"
  by (simp add: limit_def)

text \<open>The resolver does not read the orientation.\<close>

lemma f35mmFromFocalPlane_orientation:
  "f35mmFromFocalPlane (m\<lparr>orientation := k\<rparr>) = f35mmFromFocalPlane m"
  by (cases "focalPlaneUnitMul (focalPlaneUnit m)") (simp_all add: f35mmFromFocalPlane_unfold)

lemma getF35mm_orientation: "getF35mm (m\<lparr>orientation := k\<rparr>) = getF35mm m"
  by (simp add: getF35mm_def f35mmFromFocalPlane_orientation)

lemma closeFocusCorrectionFactor_absent_focalLength:
  "0 < d \<Longrightarrow> closeFocusCorrectionFactor None (Some d) = 1"
  by (simp add: closeFocusCorrectionFactor_def)

lemma message_names:
  "sublist ''FocalLengthIn35mmFormat'' resolution_message"
  "sublist ''FocalLength + ScaleFactor35efl'' resolution_message"
  "sublist ''FocalLength + FocalPlaneResolution'' resolution_message"
  "sublist ''FocalPlaneResolutionUnit must not be 1'' resolution_message"
proof -
  show "sublist ''FocalLengthIn35mmFormat'' resolution_message"
    unfolding sublist_def resolution_message_def
    by (intro exI [of _ "''Cannot determine 35 mm-equivalent focal length. The image must contain either ''"]
        exI [of _ "'', FocalLength + ScaleFactor35efl, or FocalLength + FocalPlaneResolution tags. FocalPlaneResolutionUnit must not be 1 (no-unit).''"])
      simp
  show "sublist ''FocalLength + ScaleFactor35efl'' resolution_message"
    unfolding sublist_def resolution_message_def
    by (intro exI [of _ "''Cannot determine 35 mm-equivalent focal length. The image must contain either FocalLengthIn35mmFormat, ''"]
        exI [of _ "'', or FocalLength + FocalPlaneResolution tags. FocalPlaneResolutionUnit must not be 1 (no-unit).''"])
      simp
  show "sublist ''FocalLength + FocalPlaneResolution'' resolution_message"
    unfolding sublist_def resolution_message_def
    by (intro exI [of _ "''Cannot determine 35 mm-equivalent focal length. The image must contain either FocalLengthIn35mmFormat, FocalLength + ScaleFactor35efl, or ''"]
        exI [of _ "'' tags. FocalPlaneResolutionUnit must not be 1 (no-unit).''"])
      simp
  show "sublist ''FocalPlaneResolutionUnit must not be 1'' resolution_message"
    unfolding sublist_def resolution_message_def
    by (intro exI [of _ "''Cannot determine 35 mm-equivalent focal length. The image must contain either FocalLengthIn35mmFormat, FocalLength + ScaleFactor35efl, or FocalLength + FocalPlaneResolution tags. ''"]
        exI [of _ "'' (no-unit).''"])
      simp
qed

section \<open>Numeric bounds\<close>

text \<open>
  Partial sums of the alternating arc tangent series enclose its value; they give
  rational bounds for \<open>pi\<close> (through Machin's formula) and for the arc tangents that the
  sample focal lengths need.
\<close>

lemma arctan_alternating_bounds:
  fixes x :: real
  assumes x0: "0 \<le> x" and x1: "x \<le> 1"
  shows "(\<Sum>k<2 * n. (- 1) ^ k * (1 / real (k * 2 + 1) * x ^ (k * 2 + 1))) \<le> arctan x"
    and "arctan x \<le> (\<Sum>k<2 * n + 1. (- 1) ^ k * (1 / real (k * 2 + 1) * x ^ (k * 2 + 1)))"
proof -
  define a where "a = (\<lambda>k. 1 / real (k * 2 + 1) * x ^ (k * 2 + 1))"
  have absx: "\<bar>x\<bar> \<le> 1" using x0 x1 by simp
  have lim: "a \<longlonglongrightarrow> 0"
    unfolding a_def by (rule zeroseq_arctan_series [OF absx])
  have pos: "0 \<le> a k" for k
    unfolding a_def using x0 by simp
  have dec: "a (Suc k) \<le> a k" for k
  proof -
    have p: "x ^ (Suc k * 2 + 1) \<le> x ^ (k * 2 + 1)"
      using x0 x1 by (intro power_decreasing) simp_all
    have q: "1 / real (Suc k * 2 + 1) \<le> 1 / real (k * 2 + 1)"
      by (simp add: field_simps)
    show ?thesis
      unfolding a_def using x0 by (intro mult_mono p q) simp_all
  qed
  have ser: "arctan x = (\<Sum>k. (- 1) ^ k * a k)"
    unfolding a_def by (rule arctan_series [OF absx])
  show "(\<Sum>k<2 * n. (- 1) ^ k * (1 / real (k * 2 + 1) * x ^ (k * 2 + 1))) \<le> arctan x"
    using summable_Leibniz'(2) [of a, OF lim pos dec, of n] unfolding ser a_def .
  show "arctan x \<le> (\<Sum>k<2 * n + 1. (- 1) ^ k * (1 / real (k * 2 + 1) * x ^ (k * 2 + 1)))"
    using summable_Leibniz'(4) [of a, OF lim pos dec, of n] unfolding ser a_def .
qed

lemma pi_lower: "(3.1415 :: real) \<le> pi"
proof -
  have a: "(\<Sum>k<2 * 2. (- 1) ^ k * (1 / real (k * 2 + 1) * (1 / 5 :: real) ^ (k * 2 + 1))) \<le> arctan (1 / 5)"
    by (rule arctan_alternating_bounds(1)) simp_all
  have b: "arctan (1 / 239 :: real) \<le> (\<Sum>k<2 * 0 + 1. (- 1) ^ k * (1 / real (k * 2 + 1) * (1 / 239 :: real) ^ (k * 2 + 1)))"
    by (rule arctan_alternating_bounds(2)) simp_all
  have "pi = 16 * arctan (1 / 5) - 4 * arctan (1 / 239)"
    using machin by simp
  with a b show ?thesis
    by (simp add: eval_nat_numeral)
qed

lemma pi_upper: "pi \<le> (3.1416 :: real)"
proof -
  have a: "arctan (1 / 5 :: real) \<le> (\<Sum>k<2 * 2 + 1. (- 1) ^ k * (1 / real (k * 2 + 1) * (1 / 5 :: real) ^ (k * 2 + 1)))"
    by (rule arctan_alternating_bounds(2)) simp_all
  have b: "(\<Sum>k<2 * 1. (- 1) ^ k * (1 / real (k * 2 + 1) * (1 / 239 :: real) ^ (k * 2 + 1))) \<le> arctan (1 / 239)"
    by (rule arctan_alternating_bounds(1)) simp_all
  have "pi = 16 * arctan (1 / 5) - 4 * arctan (1 / 239)"
    using machin by simp
  with a b show ?thesis
    by (simp add: eval_nat_numeral)
qed


lemma sqrt_diag_bounds: "43.26 \<le> SENSOR_DIAG_35MM" "SENSOR_DIAG_35MM \<le> 43.27"
proof -
  show "43.26 \<le> SENSOR_DIAG_35MM"
    unfolding SENSOR_DIAG_35MM_def SENSOR_WIDTH_35MM_def SENSOR_HEIGHT_35MM_def
    by (rule real_le_rsqrt) (simp add: power2_eq_square)
  show "SENSOR_DIAG_35MM \<le> 43.27"
    unfolding SENSOR_DIAG_35MM_def SENSOR_WIDTH_35MM_def SENSOR_HEIGHT_35MM_def
    by (rule real_le_lsqrt) (simp_all add: power2_eq_square)
qed

lemma arctan_036: "(0.3455 :: real) \<le> arctan (36 / 100)" "arctan (36 / 100) \<le> (0.3457 :: real)"
proof -
  have a: "(\<Sum>k<2 * 2. (- 1) ^ k * (1 / real (k * 2 + 1) * (36 / 100 :: real) ^ (k * 2 + 1))) \<le> arctan (36 / 100)"
    by (rule arctan_alternating_bounds(1)) simp_all
  then show "(0.3455 :: real) \<le> arctan (36 / 100)"
    by (simp add: eval_nat_numeral)
  have b: "arctan (36 / 100 :: real) \<le> (\<Sum>k<2 * 1 + 1. (- 1) ^ k * (1 / real (k * 2 + 1) * (36 / 100 :: real) ^ (k * 2 + 1)))"
    by (rule arctan_alternating_bounds(2)) simp_all
  then show "arctan (36 / 100) \<le> (0.3457 :: real)"
    by (simp add: eval_nat_numeral)
qed


lemma arctan_024: "(0.2353 :: real) \<le> arctan (24 / 100)" "arctan (24 / 100) \<le> (0.2356 :: real)"
proof -
  have a: "(\<Sum>k<2 * 1. (- 1) ^ k * (1 / real (k * 2 + 1) * (24 / 100 :: real) ^ (k * 2 + 1))) \<le> arctan (24 / 100)"
    by (rule arctan_alternating_bounds(1)) simp_all
  then show "(0.2353 :: real) \<le> arctan (24 / 100)"
    by (simp add: eval_nat_numeral)
  have b: "arctan (24 / 100 :: real) \<le> (\<Sum>k<2 * 1 + 1. (- 1) ^ k * (1 / real (k * 2 + 1) * (24 / 100 :: real) ^ (k * 2 + 1)))"
    by (rule arctan_alternating_bounds(2)) simp_all
  then show "arctan (24 / 100) \<le> (0.2356 :: real)"
    by (simp add: eval_nat_numeral)
qed

lemma arctan_diag: "(0.4082 :: real) \<le> arctan (SENSOR_DIAG_35MM / 100)" "arctan (SENSOR_DIAG_35MM / 100) \<le> (0.4088 :: real)"
proof -
  have a: "(\<Sum>k<2 * 2. (- 1) ^ k * (1 / real (k * 2 + 1) * (4326 / 10000 :: real) ^ (k * 2 + 1))) \<le> arctan (4326 / 10000)"
    by (rule arctan_alternating_bounds(1)) simp_all
  then have "(0.4082 :: real) \<le> arctan (4326 / 10000)"
    by (simp add: eval_nat_numeral)
  also have "arctan (4326 / 10000) \<le> arctan (SENSOR_DIAG_35MM / 100)"
    using sqrt_diag_bounds(1) by (intro arctan_monotone') simp
  finally show "(0.4082 :: real) \<le> arctan (SENSOR_DIAG_35MM / 100)" .
  have b: "arctan (4327 / 10000 :: real) \<le> (\<Sum>k<2 * 1 + 1. (- 1) ^ k * (1 / real (k * 2 + 1) * (4327 / 10000 :: real) ^ (k * 2 + 1)))"
    by (rule arctan_alternating_bounds(2)) simp_all
  have "arctan (SENSOR_DIAG_35MM / 100) \<le> arctan (4327 / 10000)"
    using sqrt_diag_bounds(2) by (intro arctan_monotone') simp
  also from b have "arctan (4327 / 10000) \<le> (0.4088 :: real)"
    by (simp add: eval_nat_numeral)
  finally show "arctan (SENSOR_DIAG_35MM / 100) \<le> (0.4088 :: real)" .
qed

lemma arctan_075: "(0.643 :: real) \<le> arctan (36 / 48)" "arctan (36 / 48) \<le> (0.6438 :: real)"
proof -
  have a: "(\<Sum>k<2 * 4. (- 1) ^ k * (1 / real (k * 2 + 1) * (36 / 48 :: real) ^ (k * 2 + 1))) \<le> arctan (36 / 48)"
    by (rule arctan_alternating_bounds(1)) simp_all
  then show "(0.643 :: real) \<le> arctan (36 / 48)"
    by (simp add: eval_nat_numeral)
  have b: "arctan (36 / 48 :: real) \<le> (\<Sum>k<2 * 4 + 1. (- 1) ^ k * (1 / real (k * 2 + 1) * (36 / 48 :: real) ^ (k * 2 + 1)))"
    by (rule arctan_alternating_bounds(2)) simp_all
  then show "arctan (36 / 48) \<le> (0.6438 :: real)"
    by (simp add: eval_nat_numeral)
qed

lemma rad2deg_within:
  assumes lo: "lo \<le> a" and hi: "a \<le> hi" and c: "0.1 \<le> c"
    and l: "(c - 0.1) * 3.1416 \<le> 360 * lo" and h: "360 * hi \<le> (c + 0.1) * 3.1415"
  shows "\<bar>rad2deg (2 * a) - c\<bar> \<le> 0.1"
proof -
  have p: "0 < pi" by simp
  have "(c - 0.1) * pi \<le> (c - 0.1) * 3.1416"
    using c pi_upper by (intro mult_left_mono) simp_all
  also have "\<dots> \<le> 360 * a"
    using l lo by simp
  finally have low: "c - 0.1 \<le> 360 * a / pi"
    using p by (simp add: pos_le_divide_eq)
  have "360 * a \<le> (c + 0.1) * 3.1415"
    using h hi by simp
  also have "\<dots> \<le> (c + 0.1) * pi"
    using c pi_lower by (intro mult_left_mono) simp_all
  finally have high: "360 * a / pi \<le> c + 0.1"
    using p by (simp add: pos_divide_le_eq)
  have "rad2deg (2 * a) = 360 * a / pi"
    by (simp add: rad2deg_def)
  with low high show ?thesis
    by linarith
qed

section \<open>Focal-length resolver\<close>

text \<open>
  C1, as stated: whenever \<open>focalLengthIn35mm\<close> is present, \<open>getF35mm\<close> returns it. This
  fails for a tag that is present with value zero: the test \<open>if (meta.focalLengthIn35mm)\<close>
  is false for \<open>0\<close>, and the resolver goes on to \<open>focalLength * scaleFactor35efl\<close>.
  The record below has \<open>focalLengthIn35mm = 0\<close>, \<open>focalLength = 50\<close> and
  \<open>scaleFactor35efl = 1.5\<close>; the result is 75, not 0.
\<close>

theorem getF35mm_zero_tag_counterexample:
  "present (focalLengthIn35mm (sample\<lparr>focalLengthIn35mm := Some 0, focalLength := Some 50,
                                       scaleFactor35efl := Some 1.5\<rparr>)) \<and>
   focalLengthIn35mm (sample\<lparr>focalLengthIn35mm := Some 0, focalLength := Some 50,
                              scaleFactor35efl := Some 1.5\<rparr>) = Some 0 \<and>
   getF35mm (sample\<lparr>focalLengthIn35mm := Some 0, focalLength := Some 50,
                     scaleFactor35efl := Some 1.5\<rparr>) = Inr 75"
  by (simp add: getF35mm_def sample_def present_def)

text \<open>
  C1, amended: for every record whose \<open>focalLengthIn35mm\<close> is present and not zero,
  \<open>getF35mm\<close> returns that value, whatever \<open>focalLength\<close>, \<open>scaleFactor35efl\<close>, the
  focal-plane tags and the pixel dimensions hold; in particular the direct tag wins over a
  disagreeing \<open>focalLength * scaleFactor35efl\<close>.
\<close>

theorem getF35mm_direct_tag:
  assumes "focalLengthIn35mm m = Some v" and "v \<noteq> 0"
  shows "getF35mm m = Inr v \<and>
         getF35mm (m\<lparr>focalLength := fl, scaleFactor35efl := sf, focalPlaneXRes := xr,
                     focalPlaneYRes := yr, focalPlaneUnit := un, width := w, height := h\<rparr>) = Inr v"
  using assms by (simp add: getF35mm_def)

theorem getF35mm_direct_tag_witness:
  "focalLengthIn35mm (sample\<lparr>focalLengthIn35mm := Some 35, focalLength := Some 50,
                              scaleFactor35efl := Some 1.5\<rparr>) = Some 35 \<and>
   getF35mm (sample\<lparr>focalLengthIn35mm := Some 35, focalLength := Some 50,
                     scaleFactor35efl := Some 1.5\<rparr>) = Inr 35 \<and>
   toNumber (Some 50) * toNumber (Some 1.5) \<noteq> (35 :: real)"
proof -
  have a: "focalLengthIn35mm (sample\<lparr>focalLengthIn35mm := Some 35, focalLength := Some 50,
                                     scaleFactor35efl := Some 1.5\<rparr>) = Some 35"
    by simp
  have b: "(35 :: real) \<noteq> 0"
    by simp
  show ?thesis
    using getF35mm_direct_tag [OF a b] by simp
qed

text \<open>
  C2, as stated, with "present" and "available" read as "not null": for every record
  with \<open>focalLength\<close> present, the focal-plane derivation yields what
  \<open>spec_focal_plane present\<close> computes. This fails for a focal length that is present
  with value zero: \<open>if (!focalLength) return null\<close> gives no value, where the stated
  formula gives \<open>0 * cropFactor = 0\<close>. (The same test on the resolutions and on the pixel
  dimensions leaves an axis with a zero operand unresolved.) The record below has no
  \<open>focalLengthIn35mm\<close>, \<open>focalLength = 0\<close> and 6000 pixels at 1000 pixels per
  millimetre; the resolver reaches the derivation and then fails.
\<close>

theorem f35mmFromFocalPlane_zero_counterexample:
  "present (focalLength (sample\<lparr>focalLengthIn35mm := None, focalLength := Some 0,
                                 focalPlaneXRes := Some 1000, focalPlaneUnit := Some 4\<rparr>)) \<and>
   f35mmFromFocalPlane (sample\<lparr>focalLengthIn35mm := None, focalLength := Some 0,
                                focalPlaneXRes := Some 1000, focalPlaneUnit := Some 4\<rparr>) = None \<and>
   spec_focal_plane present (sample\<lparr>focalLengthIn35mm := None, focalLength := Some 0,
                                     focalPlaneXRes := Some 1000, focalPlaneUnit := Some 4\<rparr>) = Some 0 \<and>
   getF35mm (sample\<lparr>focalLengthIn35mm := None, focalLength := Some 0,
                     focalPlaneXRes := Some 1000, focalPlaneUnit := Some 4\<rparr>) =
     Inl (Error resolution_message)"
  by (simp add: getF35mm_def f35mmFromFocalPlane_def sample_def present_def spec_focal_plane_def
      spec_unit_multiplier_def spec_sensor_dimension_def spec_crop_factor_def)

text \<open>
  C2, amended: with "present" and "available" read as "not null and not zero", the
  claim holds for every record. The unit multiplier is no value for code 1, 25.4 for
  code 2, 10 for code 3, 1 for code 4, 0.001 for code 5 and 25.4 for any other or missing
  code; a sensor dimension is \<open>(pixels / resolution) * multiplier\<close> when both operands
  are available; the result is \<open>focalLength * cropFactor\<close>, the crop factor being
  \<open>36 / sensorWidth\<close>, \<open>24 / sensorHeight\<close>, or their average when both axes resolve;
  there is no value when \<open>focalLength\<close> is not available, when the unit code is 1, or
  when no axis resolves.
\<close>

theorem f35mmFromFocalPlane_refines_spec:
  "focalPlaneUnitMul code = spec_unit_multiplier code \<and>
   f35mmFromFocalPlane m = spec_focal_plane nonzero m"
proof
  show u: "focalPlaneUnitMul code = spec_unit_multiplier code" for code
    by (simp add: focalPlaneUnitMul_cases spec_unit_multiplier_def)
  show "f35mmFromFocalPlane m = spec_focal_plane nonzero m"
    unfolding f35mmFromFocalPlane_unfold spec_focal_plane_def u truthy_nonzero
    by (simp add: spec_crop_factor_def spec_sensor_dimension_def split: option.splits)
qed

theorem f35mmFromFocalPlane_refines_spec_witness:
  "focalPlaneUnitMul (Some 3) = Some 10 \<and>
   f35mmFromFocalPlane (sample\<lparr>focalLengthIn35mm := None, focalLength := Some 50,
                                focalPlaneXRes := Some 1000, focalPlaneYRes := Some 1000,
                                focalPlaneUnit := Some 4\<rparr>) = Some 300"
  using f35mmFromFocalPlane_refines_spec
    [of "Some 3" "sample\<lparr>focalLengthIn35mm := None, focalLength := Some 50,
                          focalPlaneXRes := Some 1000, focalPlaneYRes := Some 1000,
                          focalPlaneUnit := Some 4\<rparr>"]
  by (simp add: sample_def nonzero_def present_def spec_focal_plane_def
      spec_unit_multiplier_def spec_sensor_dimension_def spec_crop_factor_def)

text \<open>
  C3, as stated, with "absent" read as "null": \<open>getF35mm\<close> fails only if
  \<open>focalLengthIn35mm\<close> is absent (and the other two strategies yield nothing). This
  fails for a record whose \<open>focalLengthIn35mm\<close> is present with value zero and whose
  other tags are missing: the error is raised although the tag is present.
\<close>

theorem getF35mm_fails_counterexample:
  "present (focalLengthIn35mm (sample\<lparr>focalLengthIn35mm := Some 0, focalLength := None\<rparr>)) \<and>
   getF35mm (sample\<lparr>focalLengthIn35mm := Some 0, focalLength := None\<rparr>) =
     Inl (Error resolution_message)"
  by (simp add: getF35mm_def f35mmFromFocalPlane_def sample_def present_def)

text \<open>
  C3, amended: \<open>getF35mm\<close> fails if and only if \<open>focalLengthIn35mm\<close> is null or zero,
  \<open>focalLength\<close> and \<open>scaleFactor35efl\<close> are not both non-null and non-zero, and the
  focal-plane derivation yields no value; the latter happens exactly when \<open>focalLength\<close>
  is null or zero, the unit code is 1, or on neither axis both the resolution and the
  pixel dimension are non-null and non-zero. The failure is always the error whose
  message names \<open>FocalLengthIn35mmFormat\<close>, \<open>FocalLength + ScaleFactor35efl\<close>,
  \<open>FocalLength + FocalPlaneResolution\<close> and the unit that must not be 1; a record on
  which a strategy succeeds raises no error.
\<close>

theorem getF35mm_fails_iff:
  "(isl (getF35mm m) \<longleftrightarrow>
      \<not> nonzero (focalLengthIn35mm m) \<and>
      \<not> (nonzero (focalLength m) \<and> nonzero (scaleFactor35efl m)) \<and>
      f35mmFromFocalPlane m = None) \<and>
   (f35mmFromFocalPlane m = None \<longleftrightarrow>
      \<not> nonzero (focalLength m) \<or> focalPlaneUnit m = Some 1 \<or>
      (\<not> (nonzero (focalPlaneXRes m) \<and> nonzero (width m)) \<and>
       \<not> (nonzero (focalPlaneYRes m) \<and> nonzero (height m)))) \<and>
   (isl (getF35mm m) \<longrightarrow> getF35mm m = Inl (Error resolution_message)) \<and>
   sublist ''FocalLengthIn35mmFormat'' resolution_message \<and>
   sublist ''FocalLength + ScaleFactor35efl'' resolution_message \<and>
   sublist ''FocalLength + FocalPlaneResolution'' resolution_message \<and>
   sublist ''FocalPlaneResolutionUnit must not be 1'' resolution_message"
proof -
  have a: "isl (getF35mm m) \<longleftrightarrow>
      \<not> nonzero (focalLengthIn35mm m) \<and>
      \<not> (nonzero (focalLength m) \<and> nonzero (scaleFactor35efl m)) \<and>
      f35mmFromFocalPlane m = None"
    unfolding truthy_nonzero [symmetric]
    by (cases "f35mmFromFocalPlane m") (simp_all add: getF35mm_def)
  have b: "f35mmFromFocalPlane m = None \<longleftrightarrow>
      \<not> nonzero (focalLength m) \<or> focalPlaneUnit m = Some 1 \<or>
      (\<not> (nonzero (focalPlaneXRes m) \<and> nonzero (width m)) \<and>
       \<not> (nonzero (focalPlaneYRes m) \<and> nonzero (height m)))"
    unfolding truthy_nonzero [symmetric] by (rule f35mmFromFocalPlane_None_iff)
  have c: "isl (getF35mm m) \<longrightarrow> getF35mm m = Inl (Error resolution_message)"
    by (cases "f35mmFromFocalPlane m") (simp_all add: getF35mm_def)
  from a b c message_names show ?thesis
    by blast
qed

theorem getF35mm_fails_iff_witness:
  "getF35mm (sample\<lparr>focalLengthIn35mm := None, focalLength := None\<rparr>) =
     Inl (Error resolution_message) \<and>
   \<not> isl (getF35mm sample)"
proof -
  have n: "\<not> nonzero (focalLengthIn35mm (sample\<lparr>focalLengthIn35mm := None, focalLength := None\<rparr>))"
          "\<not> nonzero (focalLength (sample\<lparr>focalLengthIn35mm := None, focalLength := None\<rparr>))"
    by (simp_all add: nonzero_def present_def)
  have p: "nonzero (focalLengthIn35mm sample)"
    by (simp add: sample_def nonzero_def present_def)
  show ?thesis
    using getF35mm_fails_iff [of "sample\<lparr>focalLengthIn35mm := None, focalLength := None\<rparr>"]
      getF35mm_fails_iff [of sample] n p
    by blast
qed

text \<open>
  C4, as stated: for every record, \<open>getF35mm\<close> fails or returns a strictly positive
  value. The code tests its inputs for truthiness only, never for sign, so a negative
  tag is returned as it is, and a negative resolution on one axis can cancel the crop
  factor of the other: the first record below yields \<open>-5\<close>, the second yields \<open>0\<close>
  (crop factors \<open>6\<close> and \<open>-6\<close>, averaged).
\<close>

theorem getF35mm_positive_counterexample:
  "getF35mm (sample\<lparr>focalLengthIn35mm := Some (- 5)\<rparr>) = Inr (- 5) \<and>
   getF35mm (sample\<lparr>focalLengthIn35mm := None, focalLength := Some 50,
                     focalPlaneXRes := Some 1000, focalPlaneYRes := Some (- 1000),
                     focalPlaneUnit := Some 4\<rparr>) = Inr 0"
  by (simp add: getF35mm_def f35mmFromFocalPlane_unfold focalPlaneUnitMul_cases sample_def)

text \<open>
  C4, amended: for every record in which each of \<open>focalLengthIn35mm\<close>, \<open>focalLength\<close>,
  \<open>scaleFactor35efl\<close>, \<open>focalPlaneXRes\<close>, \<open>focalPlaneYRes\<close>, \<open>width\<close> and
  \<open>height\<close> is missing, zero, or between \<open>10^-100\<close> and \<open>10^100\<close>, \<open>getF35mm\<close>
  either fails or returns a strictly positive value, between \<open>12 / (13 * 10^300)\<close> and
  \<open>36000 * 10^300\<close>. The bound on the magnitudes is needed besides the sign: in doubles
  the product of two tiny positive tags (\<open>2^-600 * 2^-600\<close>) is zero, and a tiny
  resolution makes the sensor width infinite and the crop factor zero. Within the bound
  no product or quotient of the resolver leaves the range of normal doubles, so the
  rounded results are positive where the exact ones are.
\<close>

theorem getF35mm_positive:
  assumes "moderate (focalLengthIn35mm m)" and "moderate (focalLength m)"
    and "moderate (scaleFactor35efl m)"
    and "moderate (focalPlaneXRes m)" and "moderate (focalPlaneYRes m)"
    and "moderate (width m)" and "moderate (height m)"
  shows "isl (getF35mm m) \<or>
         (\<exists>v. getF35mm m = Inr v \<and> 0 < v \<and>
              12 / (13 * limit ^ 3) \<le> v \<and> v \<le> 36000 * limit ^ 3)"
proof -
  note L = limit_ge_1
  have pos: "0 < v \<and> 12 / (13 * limit ^ 3) \<le> v \<and> v \<le> 36000 * limit ^ 3"
    if "12 / (13 * limit ^ 3) \<le> v \<and> v \<le> 36000 * limit ^ 3" for v
    using that less_le_trans [OF limit_bounds_positive, of v] by blast
  show ?thesis
  proof (cases "truthy (focalLengthIn35mm m)")
    case True
    then have "1 / limit \<le> toNumber (focalLengthIn35mm m) \<and> toNumber (focalLengthIn35mm m) \<le> limit"
      using assms(1) by (rule truthy_moderate)
    with L have "1 / limit\<^sup>2 \<le> toNumber (focalLengthIn35mm m) \<and> toNumber (focalLengthIn35mm m) \<le> limit\<^sup>2"
      by (rule square_bounds)
    with L have "12 / (13 * limit ^ 3) \<le> toNumber (focalLengthIn35mm m) \<and>
                 toNumber (focalLengthIn35mm m) \<le> 36000 * limit ^ 3"
      by (rule widen_bounds)
    then have "0 < toNumber (focalLengthIn35mm m) \<and>
               12 / (13 * limit ^ 3) \<le> toNumber (focalLengthIn35mm m) \<and>
               toNumber (focalLengthIn35mm m) \<le> 36000 * limit ^ 3"
      by (rule pos)
    with True show ?thesis
      by (simp add: getF35mm_def)
  next
    case False
    note direct = this
    show ?thesis
    proof (cases "truthy (focalLength m) \<and> truthy (scaleFactor35efl m)")
      case True
      have f: "1 / limit \<le> toNumber (focalLength m) \<and> toNumber (focalLength m) \<le> limit"
        by (intro truthy_moderate assms(2)) (use True in simp)
      have s: "1 / limit \<le> toNumber (scaleFactor35efl m) \<and> toNumber (scaleFactor35efl m) \<le> limit"
        by (intro truthy_moderate assms(3)) (use True in simp)
      from L f s have "1 / limit\<^sup>2 \<le> toNumber (focalLength m) * toNumber (scaleFactor35efl m) \<and>
                   toNumber (focalLength m) * toNumber (scaleFactor35efl m) \<le> limit\<^sup>2"
        by (rule product_bounds)
      with L have "12 / (13 * limit ^ 3) \<le> toNumber (focalLength m) * toNumber (scaleFactor35efl m) \<and>
                   toNumber (focalLength m) * toNumber (scaleFactor35efl m) \<le> 36000 * limit ^ 3"
        by (rule widen_bounds)
      then have "0 < toNumber (focalLength m) * toNumber (scaleFactor35efl m) \<and>
                 12 / (13 * limit ^ 3) \<le> toNumber (focalLength m) * toNumber (scaleFactor35efl m) \<and>
                 toNumber (focalLength m) * toNumber (scaleFactor35efl m) \<le> 36000 * limit ^ 3"
        by (rule pos)
      with direct True show ?thesis
        by (simp add: getF35mm_def)
    next
      case False
      show ?thesis
      proof (cases "f35mmFromFocalPlane m")
        case None
        with direct False show ?thesis
          by (auto simp: getF35mm_def)
      next
        case (Some v)
        have "12 / (13 * limit ^ 3) \<le> v \<and> v \<le> 36000 * limit ^ 3"
          using assms(2,6,7,4,5) Some by (rule f35mmFromFocalPlane_bounds)
        then have "0 < v \<and> 12 / (13 * limit ^ 3) \<le> v \<and> v \<le> 36000 * limit ^ 3"
          by (rule pos)
        with direct False Some show ?thesis
          by (auto simp: getF35mm_def)
      qed
    qed
  qed
qed

theorem getF35mm_positive_witness:
  "moderate (focalLengthIn35mm (sample\<lparr>focalLengthIn35mm := None, focalPlaneXRes := Some 1000,
                                        focalPlaneUnit := Some 4\<rparr>)) \<and>
   moderate (focalPlaneXRes (sample\<lparr>focalLengthIn35mm := None, focalPlaneXRes := Some 1000,
                                     focalPlaneUnit := Some 4\<rparr>)) \<and>
   getF35mm (sample\<lparr>focalLengthIn35mm := None, focalPlaneXRes := Some 1000,
                     focalPlaneUnit := Some 4\<rparr>) = Inr 540 \<and>
   12 / (13 * limit ^ 3) \<le> 540 \<and> 540 \<le> 36000 * limit ^ 3"
proof -
  let ?m = "sample\<lparr>focalLengthIn35mm := None, focalPlaneXRes := Some 1000,
                    focalPlaneUnit := Some 4\<rparr>"
  have h: "moderate (focalLengthIn35mm ?m)" "moderate (focalLength ?m)"
    "moderate (scaleFactor35efl ?m)" "moderate (focalPlaneXRes ?m)"
    "moderate (focalPlaneYRes ?m)" "moderate (width ?m)" "moderate (height ?m)"
    by (simp_all add: sample_def moderate_def limit_def)
  have v: "getF35mm ?m = Inr 540"
    by (simp add: getF35mm_def f35mmFromFocalPlane_unfold focalPlaneUnitMul_cases sample_def)
  from getF35mm_positive [OF h] v
  have b: "12 / (13 * limit ^ 3) \<le> 540 \<and> 540 \<le> 36000 * limit ^ 3"
    by simp
  from h(1,4) v b show ?thesis
    by blast
qed

section \<open>Close-focus corrector\<close>

text \<open>
  What the code computes: for every focal length \<open>f\<close> the factor is exactly 1 when the
  focus distance is null or at most 0, exactly 1 when \<open>d = 1000 * focusDistance - f\<close> is
  at most 0, and \<open>1 + f / d\<close> otherwise; it is at least 1 whenever \<open>f\<close> is not negative;
  the factor for \<open>(100, 1.18)\<close> is within 0.001 of 1.0926 and the factor for
  \<open>(100, 100)\<close> is within 0.001 of 1.001.
\<close>

lemma closeFocusCorrectionFactor_cases:
  "closeFocusCorrectionFactor (Some f) None = 1 \<and>
   (x \<le> 0 \<longrightarrow> closeFocusCorrectionFactor (Some f) (Some x) = 1) \<and>
   (0 < x \<and> 1000 * x - f \<le> 0 \<longrightarrow> closeFocusCorrectionFactor (Some f) (Some x) = 1) \<and>
   (0 < x \<and> 0 < 1000 * x - f \<longrightarrow>
      closeFocusCorrectionFactor (Some f) (Some x) = 1 + f / (1000 * x - f)) \<and>
   (0 \<le> f \<longrightarrow> 1 \<le> closeFocusCorrectionFactor (Some f) fd) \<and>
   \<bar>closeFocusCorrectionFactor (Some 100) (Some 1.18) - 1.0926\<bar> \<le> 0.001 \<and>
   \<bar>closeFocusCorrectionFactor (Some 100) (Some 100) - 1.001\<bar> \<le> 0.001"
proof -
  have a: "closeFocusCorrectionFactor (Some f) None = 1"
    by (simp add: closeFocusCorrectionFactor_def)
  have b: "x \<le> 0 \<longrightarrow> closeFocusCorrectionFactor (Some f) (Some x) = 1"
    by (simp add: closeFocusCorrectionFactor_def)
  have c: "0 < x \<and> 1000 * x - f \<le> 0 \<longrightarrow> closeFocusCorrectionFactor (Some f) (Some x) = 1"
    by (simp add: closeFocusCorrectionFactor_def Let_def)
  have d: "0 < x \<and> 0 < 1000 * x - f \<longrightarrow>
      closeFocusCorrectionFactor (Some f) (Some x) = 1 + f / (1000 * x - f)"
    by (simp add: closeFocusCorrectionFactor_def Let_def)
  have e: "0 \<le> f \<longrightarrow> 1 \<le> closeFocusCorrectionFactor (Some f) fd"
  proof
    assume f: "0 \<le> f"
    have "0 \<le> f / (1000 * toNumber fd - f)" if "\<not> 1000 * toNumber fd - f \<le> 0"
      using that f by simp
    then show "1 \<le> closeFocusCorrectionFactor (Some f) fd"
      by (simp add: closeFocusCorrectionFactor_def Let_def)
  qed
  have g: "\<bar>closeFocusCorrectionFactor (Some 100) (Some 1.18) - 1.0926\<bar> \<le> 0.001"
    by (simp add: closeFocusCorrectionFactor_def Let_def)
  have h: "\<bar>closeFocusCorrectionFactor (Some 100) (Some 100) - 1.001\<bar> \<le> 0.001"
    by (simp add: closeFocusCorrectionFactor_def Let_def)
  from a b c d e g h show ?thesis
    by blast
qed

text \<open>For a negative focal length and a positive focus distance the factor is below 1.\<close>

lemma closeFocusCorrectionFactor_negative_focalLength:
  assumes "f < 0" and "0 < x"
  shows "closeFocusCorrectionFactor (Some f) (Some x) < 1"
proof -
  have d: "0 < 1000 * x - f"
    using assms by simp
  then have "f / (1000 * x - f) < 0"
    using assms(1) by (simp add: divide_neg_pos)
  with d assms(2) show ?thesis
    by (simp add: closeFocusCorrectionFactor_def Let_def)
qed

text \<open>
  C5: the factor is claimed to be at least 1 for every focal length and every focus
  distance. That is the bound the function's own doc comment gives for its result
  (\<open>correction multiplier (>= 1.0)\<close>) and the one its two guards, on the focus distance
  and on \<open>d\<close>, work towards; the three cases and the two numeric examples of the claim
  hold. The code misses the bound for a negative focal length, which no guard covers:
  \<open>closeFocusCorrectionFactor(-100, 1)\<close> has \<open>d = 1100\<close> and returns
  \<open>1 - 100 / 1100 = 10 / 11\<close>.
\<close>

theorem closeFocusCorrectionFactor_below_one:
  "closeFocusCorrectionFactor (Some (- 100)) (Some 1) = 10 / 11"
  by (simp add: closeFocusCorrectionFactor_def Let_def)

theorem closeFocusCorrectionFactor_below_one_witness:
  "closeFocusCorrectionFactor (Some (- 100)) (Some 1) < 1 \<and>
   \<not> 1 \<le> closeFocusCorrectionFactor (Some (- 100)) (Some 1)"
  using closeFocusCorrectionFactor_below_one by simp

text \<open>
  C10: when \<open>analyze\<close> runs with the close-focus correction enabled on a record whose
  \<open>focalLength\<close> is null and whose \<open>focusDistance\<close> is a positive number, the correction
  factor is exactly 1 (the null focal length counts as 0 in \<open>1000 * focusDistance - 0\<close>
  and in \<open>0 / d\<close>), so the whole result equals the uncorrected one, and the analysis
  fails only where the resolver does.
\<close>

theorem analyze_correction_without_focalLength:
  assumes "focalLength m = None" and "focusDistance m = Some d" and "0 < d"
  shows "closeFocusCorrectionFactor (focalLength m) (focusDistance m) = 1 \<and>
         analyze path m True = analyze path m False \<and>
         (isl (analyze path m True) \<longleftrightarrow> isl (getF35mm m))"
proof -
  have one: "closeFocusCorrectionFactor (focalLength m) (focusDistance m) = 1"
    using assms by (simp add: closeFocusCorrectionFactor_absent_focalLength)
  have same: "analyze path m True = analyze path m False"
    by (cases "getF35mm m") (simp_all add: analyze_def Let_def one)
  have err: "isl (analyze path m True) \<longleftrightarrow> isl (getF35mm m)"
    by (cases "getF35mm m") (simp_all add: analyze_def Let_def)
  from one same err show ?thesis
    by simp
qed

theorem analyze_correction_without_focalLength_witness:
  "focalLength (sample\<lparr>focalLength := None, focusDistance := Some 2\<rparr>) = None \<and>
   analyze ''a.jpg'' (sample\<lparr>focalLength := None, focusDistance := Some 2\<rparr>) True =
   analyze ''a.jpg'' (sample\<lparr>focalLength := None, focusDistance := Some 2\<rparr>) False \<and>
   \<not> isl (analyze ''a.jpg'' (sample\<lparr>focalLength := None, focusDistance := Some 2\<rparr>) True)"
proof -
  let ?m = "sample\<lparr>focalLength := None, focusDistance := Some 2\<rparr>"
  have a: "focalLength ?m = None" and b: "focusDistance ?m = Some 2" and c: "(0 :: real) < 2"
    by simp_all
  have r: "\<not> isl (getF35mm ?m)"
    by (simp add: getF35mm_def sample_def)
  note t = analyze_correction_without_focalLength [OF a b c, of "''a.jpg''"]
  from t have same: "analyze ''a.jpg'' ?m True = analyze ''a.jpg'' ?m False"
    by blast
  from t r have ok: "\<not> isl (analyze ''a.jpg'' ?m True)"
    by blast
  from a same ok show ?thesis
    by blast
qed

section \<open>Orientation adjuster\<close>

text \<open>
  C7: for every width, height and orientation code, \<open>adjustForOrientation\<close> returns the
  dimensions swapped exactly when the code is 5, 6, 7 or 8, and unchanged for every other
  code, inside or outside 1 to 8. The function has no failing branch. (The orientation is
  the integer code of the Orientation tag: \<open>extractExif\<close> passes the numeric tag on or
  sets 6, 8, 3 or 1 from its description.)
\<close>

theorem adjustForOrientation_swaps:
  "adjustForOrientation w h orient =
     (if orient = 5 \<or> orient = 6 \<or> orient = 7 \<or> orient = 8
      then \<lparr>dims_width = h, dims_height = w\<rparr>
      else \<lparr>dims_width = w, dims_height = h\<rparr>)"
proof (cases "5 \<le> orient \<and> orient \<le> 8")
  case True
  then have "orient = 5 \<or> orient = 6 \<or> orient = 7 \<or> orient = 8"
    by arith
  with True show ?thesis
    by (simp add: adjustForOrientation_def)
next
  case False
  then have "\<not> (orient = 5 \<or> orient = 6 \<or> orient = 7 \<or> orient = 8)"
    by arith
  with False show ?thesis
    by (auto simp: adjustForOrientation_def)
qed

theorem adjustForOrientation_swaps_witness:
  "adjustForOrientation (4000 :: nat) 3000 6 = \<lparr>dims_width = 3000, dims_height = 4000\<rparr> \<and>
   adjustForOrientation (4000 :: nat) 3000 3 = \<lparr>dims_width = 4000, dims_height = 3000\<rparr> \<and>
   adjustForOrientation (4000 :: nat) 3000 9 = \<lparr>dims_width = 4000, dims_height = 3000\<rparr> \<and>
   adjustForOrientation (4000 :: nat) 3000 (- 1) = \<lparr>dims_width = 4000, dims_height = 3000\<rparr>"
  using adjustForOrientation_swaps [of "4000 :: nat" 3000 6]
    adjustForOrientation_swaps [of "4000 :: nat" 3000 3]
    adjustForOrientation_swaps [of "4000 :: nat" 3000 9]
    adjustForOrientation_swaps [of "4000 :: nat" 3000 "- 1"]
  by simp

section \<open>Field of view\<close>

text \<open>
  C8: for every 35 mm-equivalent focal length \<open>f\<close>, \<open>computeFov\<close> returns, in degrees,
  \<open>2 * atan (36 / (2 * f))\<close>, \<open>2 * atan (24 / (2 * f))\<close> and
  \<open>2 * atan (sqrt (36^2 + 24^2) / (2 * f))\<close>, degrees being radians times 180 over
  \<open>pi\<close>. At \<open>f = 0\<close> the quotient is infinite and the formula gives 180 degrees on each
  axis. In particular \<open>computeFov 50\<close> is within 0.1 of 39.6, 27.0 and 46.8 degrees, and
  the horizontal angle of \<open>computeFov 24\<close> is within 0.1 of 73.74 degrees.
\<close>

theorem computeFov_formula:
  "(f \<noteq> 0 \<longrightarrow>
      hfov (computeFov f) = 2 * arctan (36 / (2 * f)) * 180 / pi \<and>
      vfov (computeFov f) = 2 * arctan (24 / (2 * f)) * 180 / pi \<and>
      dfov (computeFov f) = 2 * arctan (sqrt (36\<^sup>2 + 24\<^sup>2) / (2 * f)) * 180 / pi) \<and>
   computeFov 0 = \<lparr>hfov = 180, vfov = 180, dfov = 180\<rparr> \<and>
   \<bar>hfov (computeFov 50) - 39.6\<bar> \<le> 0.1 \<and>
   \<bar>vfov (computeFov 50) - 27.0\<bar> \<le> 0.1 \<and>
   \<bar>dfov (computeFov 50) - 46.8\<bar> \<le> 0.1 \<and>
   \<bar>hfov (computeFov 24) - 73.74\<bar> \<le> 0.1"
proof -
  have formula: "f \<noteq> 0 \<longrightarrow>
      hfov (computeFov f) = 2 * arctan (36 / (2 * f)) * 180 / pi \<and>
      vfov (computeFov f) = 2 * arctan (24 / (2 * f)) * 180 / pi \<and>
      dfov (computeFov f) = 2 * arctan (sqrt (36\<^sup>2 + 24\<^sup>2) / (2 * f)) * 180 / pi"
    by (simp add: computeFov_def atan_quot_def rad2deg_def SENSOR_WIDTH_35MM_def
        SENSOR_HEIGHT_35MM_def SENSOR_DIAG_35MM_def)
  have zero: "computeFov 0 = \<lparr>hfov = 180, vfov = 180, dfov = 180\<rparr>"
    by (simp add: computeFov_def atan_quot_def rad2deg_def)
  have h50: "\<bar>hfov (computeFov 50) - 39.6\<bar> \<le> 0.1"
  proof -
    have e: "hfov (computeFov 50) = rad2deg (2 * arctan (36 / 100))"
      by (simp add: computeFov_def atan_quot_def SENSOR_WIDTH_35MM_def)
    show ?thesis
      unfolding e by (rule rad2deg_within [OF arctan_036]) simp_all
  qed
  have v50: "\<bar>vfov (computeFov 50) - 27.0\<bar> \<le> 0.1"
  proof -
    have e: "vfov (computeFov 50) = rad2deg (2 * arctan (24 / 100))"
      by (simp add: computeFov_def atan_quot_def SENSOR_HEIGHT_35MM_def)
    show ?thesis
      unfolding e by (rule rad2deg_within [OF arctan_024]) simp_all
  qed
  have d50: "\<bar>dfov (computeFov 50) - 46.8\<bar> \<le> 0.1"
  proof -
    have e: "dfov (computeFov 50) = rad2deg (2 * arctan (SENSOR_DIAG_35MM / 100))"
      by (simp add: computeFov_def atan_quot_def)
    show ?thesis
      unfolding e by (rule rad2deg_within [OF arctan_diag]) simp_all
  qed
  have h24: "\<bar>hfov (computeFov 24) - 73.74\<bar> \<le> 0.1"
  proof -
    have e: "hfov (computeFov 24) = rad2deg (2 * arctan (36 / 48))"
      by (simp add: computeFov_def atan_quot_def SENSOR_WIDTH_35MM_def)
    show ?thesis
      unfolding e by (rule rad2deg_within [OF arctan_075]) simp_all
  qed
  from formula zero h50 v50 d50 h24 show ?thesis
    by blast
qed

theorem computeFov_formula_witness:
  "(90 :: real) \<noteq> 0 \<and>
   hfov (computeFov 90) = 2 * arctan (36 / (2 * 90)) * 180 / pi \<and>
   vfov (computeFov 90) = 2 * arctan (24 / (2 * 90)) * 180 / pi \<and>
   dfov (computeFov 90) = 2 * arctan (sqrt (36\<^sup>2 + 24\<^sup>2) / (2 * 90)) * 180 / pi"
proof -
  have n: "(90 :: real) \<noteq> 0"
    by simp
  from computeFov_formula [of 90] n show ?thesis
    by blast
qed

section \<open>Diagonal pixel focal length\<close>

text \<open>
  C9: for every \<open>f\<close>, \<open>W\<close> and \<open>H\<close> (positive or not),
  \<open>computeDiagonalPixelFocalLength f W H\<close> equals \<open>computeDiagonalPixelFocalLength f H W\<close>.
\<close>

theorem computeDiagonalPixelFocalLength_swap:
  "computeDiagonalPixelFocalLength f W H = computeDiagonalPixelFocalLength f H W"
  by (simp add: computeDiagonalPixelFocalLength_def add.commute)

theorem computeDiagonalPixelFocalLength_swap_witness:
  "computeDiagonalPixelFocalLength 90 6000 4000 = computeDiagonalPixelFocalLength 90 4000 6000"
  by (rule computeDiagonalPixelFocalLength_swap)

text \<open>
  C6: for every record, the \<open>fPixelDiagonal\<close> of the result of \<open>analyze\<close> is
  \<open>computeDiagonalPixelFocalLength\<close> of the resolved, uncorrected 35 mm-equivalent focal
  length and the stored pixel dimensions. It is the same with the close-focus correction
  on or off and for any two orientation codes; where the resolver fails, every variant
  fails with the same error.
\<close>

theorem analyze_fPixelDiagonal_invariant:
  "map_sum id fPixelDiagonal (analyze path (m\<lparr>orientation := o1\<rparr>) c1) =
   map_sum id fPixelDiagonal (analyze path (m\<lparr>orientation := o2\<rparr>) c2) \<and>
   map_sum id fPixelDiagonal (analyze path m c1) =
   map_sum id (\<lambda>f35mm. computeDiagonalPixelFocalLength f35mm (toNumber (width m)) (toNumber (height m)))
     (getF35mm m)"
proof -
  have g: "getF35mm (m\<lparr>orientation := k\<rparr>) = getF35mm m" for k
    by (rule getF35mm_orientation)
  have r: "map_sum id fPixelDiagonal (analyze path (m\<lparr>orientation := k\<rparr>) c) =
           map_sum id (\<lambda>f35mm. computeDiagonalPixelFocalLength f35mm (toNumber (width m)) (toNumber (height m)))
             (getF35mm m)" for k c
    by (cases "getF35mm m") (simp_all add: analyze_def g Let_def)
  have "map_sum id fPixelDiagonal (analyze path m c1) =
        map_sum id (\<lambda>f35mm. computeDiagonalPixelFocalLength f35mm (toNumber (width m)) (toNumber (height m)))
          (getF35mm m)"
    using r [of "orientation m" c1] by simp
  with r [of o1 c1] r [of o2 c2] show ?thesis
    by simp
qed

theorem analyze_fPixelDiagonal_invariant_witness:
  "map_sum id fPixelDiagonal (analyze ''a.jpg'' (sample\<lparr>focusDistance := Some 2, orientation := 1\<rparr>) False) =
   map_sum id fPixelDiagonal (analyze ''a.jpg'' (sample\<lparr>focusDistance := Some 2, orientation := 6\<rparr>) True) \<and>
   map_sum id fPixelDiagonal (analyze ''a.jpg'' (sample\<lparr>focusDistance := Some 2\<rparr>) True) =
   Inr (computeDiagonalPixelFocalLength 90 6000 4000)"
  using analyze_fPixelDiagonal_invariant
    [where path = "''a.jpg''" and m = "sample\<lparr>focusDistance := Some 2\<rparr>"
       and ?o1.0 = 1 and ?c1.0 = False and ?o2.0 = 6 and ?c2.0 = True]
    analyze_fPixelDiagonal_invariant
    [where path = "''a.jpg''" and m = "sample\<lparr>focusDistance := Some 2\<rparr>"
       and ?o1.0 = 1 and ?c1.0 = True and ?o2.0 = 1 and ?c2.0 = True]
  by (simp add: getF35mm_def sample_def)

end
